theory Spec2Isabelle
  imports Main
begin

section \<open>JavaScript values, objects and the store\<close>

text \<open>
  The class \<open>Telegram\<close> of \<open>src/telegram.js\<close> is a facade over two objects it is
  given: \<open>MTProto\<close> (the transport layer) and \<open>TL\<close> (the schema layer). Every method
  reads properties of these objects and calls functions found there, so the model has
  JavaScript values, a store of objects, and the behaviour of the functions of the two
  layers as a parameter.

  Numbers are integers here (the program only passes them on). An object is the list of
  its own properties, in insertion order; a function object has a code identifier beside
  its properties (\<open>AuthKey\<close> is called with \<open>new\<close> and carries the static method
  \<open>decryptAuthKey\<close>). The store is the list of all objects ever created, an object
  literal is appended to it, and a reference is an index into it.
\<close>

datatype jsval = Undefined | Null | Bool bool | Num int | Str string | Ref nat

datatype obj = Obj "(string \<times> jsval) list" | Function nat "(string \<times> jsval) list"

fun props :: "obj \<Rightarrow> (string \<times> jsval) list" where
  "props (Obj ps) = ps"
| "props (Function c ps) = ps"

fun code_of :: "obj \<Rightarrow> nat option" where
  "code_of (Obj ps) = None"
| "code_of (Function c ps) = Some c"

text \<open>What a \<open>throw\<close> carries: the \<open>new Error(message)\<close> of the constructor, the
  \<open>TypeError\<close> of the language itself (a property of \<open>undefined\<close> or \<open>null\<close>, a call
  of something that is no function), or whatever a function of the two layers throws.\<close>

datatype exn = Error string | TypeError | Thrown jsval

text \<open>The truth value of a value, as \<open>!v\<close> and \<open>||\<close> read it.\<close>

fun truthy :: "jsval \<Rightarrow> bool" where
  "truthy Undefined = False"
| "truthy Null = False"
| "truthy (Bool b) = b"
| "truthy (Num n) = (n \<noteq> 0)"
| "truthy (Str s) = (s \<noteq> [])"
| "truthy (Ref a) = True"

text \<open>A parameter with a default value takes the default when the argument is
  \<open>undefined\<close> (omitted), and only then.\<close>

definition dflt :: "jsval \<Rightarrow> jsval \<Rightarrow> jsval" where
  "dflt v d = (if v = Undefined then d else v)"

text \<open>\<open>v.k\<close>: a \<open>TypeError\<close> on \<open>undefined\<close> and \<open>null\<close>, the property's value on an
  object that has it, \<open>undefined\<close> otherwise (none of the names this program reads is
  a property of a primitive value or of a built-in prototype). A reference outside
  the store does not arise in a run; it reads as an object without properties.\<close>

fun get :: "obj list \<Rightarrow> jsval \<Rightarrow> string \<Rightarrow> exn + jsval" where
  "get h Undefined k = Inl TypeError"
| "get h Null k = Inl TypeError"
| "get h (Ref a) k =
     (if a < length h
      then (case map_of (props (h ! a)) k of None \<Rightarrow> Inr Undefined | Some v \<Rightarrow> Inr v)
      else Inr Undefined)"
| "get h v k = Inr Undefined"

text \<open>The code of a callable value: only a function object has one.\<close>

fun callee_code :: "obj list \<Rightarrow> jsval \<Rightarrow> nat option" where
  "callee_code h (Ref a) = (if a < length h then code_of (h ! a) else None)"
| "callee_code h v = None"

section \<open>Calls into the two layers\<close>

text \<open>
  A call \<open>f.apply(receiver, args)\<close> or \<open>new f(...args)\<close> of a function of the layers.
  What such a function does is not part of this repository: it is the parameter
  \<open>env\<close>, which maps the code of the function and the call to an outcome and a new
  store. Every call made is appended to the trace of the state, so that theorems can
  count the calls and read their arguments.
\<close>

datatype event = Call jsval jsval "jsval list" | New jsval "jsval list"

fun callee :: "event \<Rightarrow> jsval" where
  "callee (Call f r args) = f"
| "callee (New f args) = f"

fun args_of :: "event \<Rightarrow> jsval list" where
  "args_of (Call f r args) = args"
| "args_of (New f args) = args"

type_synonym extern = "nat \<Rightarrow> event \<Rightarrow> obj list \<Rightarrow> (exn + jsval) \<times> obj list"

text \<open>The fields of a \<open>Telegram\<close> instance. \<open>schema\<close> is not assigned by the
  constructor, so it reads as \<open>undefined\<close> until \<open>useSchema\<close> has run.\<close>

record telegram =
  MTProto :: jsval
  TL :: jsval
  schema :: jsval

record state =
  facade :: telegram
  heap :: "obj list"
  trace :: "event list"

type_synonym 'a action = "state \<Rightarrow> (exn + 'a) \<times> state"

definition ret :: "'a \<Rightarrow> 'a action" where
  "ret x = (\<lambda>st. (Inr x, st))"

text \<open>Sequencing: an exception ends the method, keeping the state reached so far.\<close>

definition seq :: "'a action \<Rightarrow> ('a \<Rightarrow> 'b action) \<Rightarrow> 'b action" where
  "seq m f = (\<lambda>st. case m st of (Inl e, st') \<Rightarrow> (Inl e, st') | (Inr x, st') \<Rightarrow> f x st')"

definition this_field :: "(telegram \<Rightarrow> jsval) \<Rightarrow> jsval action" where
  "this_field fld = (\<lambda>st. (Inr (fld (facade st)), st))"

definition getp :: "jsval \<Rightarrow> string \<Rightarrow> jsval action" where
  "getp v k = (\<lambda>st. (get (heap st) v k, st))"

text \<open>An object literal \<open>{k1: v1, ...}\<close>: a new object at the end of the store.\<close>

definition alloc :: "(string \<times> jsval) list \<Rightarrow> jsval action" where
  "alloc ps = (\<lambda>st. (Inr (Ref (length (heap st))), st\<lparr>heap := heap st @ [Obj ps]\<rparr>))"

definition invoke :: "extern \<Rightarrow> event \<Rightarrow> jsval action" where
  "invoke env ev = (\<lambda>st.
     case callee_code (heap st) (callee ev) of
       None \<Rightarrow> (Inl TypeError, st)
     | Some c \<Rightarrow> (case env c ev (heap st) of
                   (r, h') \<Rightarrow> (r, st\<lparr>heap := h', trace := trace st @ [ev]\<rparr>)))"

section \<open>The class Telegram\<close>

text \<open>\<open>constructor(MTProto, TL)\<close>\<close>

definition Telegram_constructor :: "jsval \<Rightarrow> jsval \<Rightarrow> exn + telegram" where
  "Telegram_constructor mtproto tlang =
     (if \<not> truthy mtproto \<or> \<not> truthy tlang
      then Inl (Error ''You must invoke new Telegram(MTProto, TypeLanguage)'')
      else Inr \<lparr>MTProto = mtproto, TL = tlang, schema = Undefined\<rparr>)"

text \<open>\<open>useSchema(schema, typePrefix = 'Telegram.type', servicePrefix = 'Telegram.service')\<close>.
  \<open>buildTypes\<close> is called as a plain function, so its receiver is \<open>undefined\<close>.\<close>

definition useSchema :: "extern \<Rightarrow> jsval \<Rightarrow> jsval \<Rightarrow> jsval \<Rightarrow> jsval action" where
  "useSchema env description typePrefix0 servicePrefix0 =
     (let typePrefix = dflt typePrefix0 (Str ''Telegram.type'');
          servicePrefix = dflt servicePrefix0 (Str ''Telegram.service'')
      in
      seq (this_field TL) (\<lambda>tlang.
      seq (getp tlang ''TypeBuilder'') (\<lambda>typeBuilder.
      seq (getp typeBuilder ''buildTypes'') (\<lambda>buildTypes.
      seq (alloc [(''_id'', typePrefix)]) (\<lambda>type.
      seq (getp description ''constructors'') (\<lambda>constructors.
      seq (invoke env (Call buildTypes Undefined [constructors, Null, type, Bool False])) (\<lambda>_.
      seq (alloc [(''_id'', servicePrefix)]) (\<lambda>service.
      seq (getp description ''methods'') (\<lambda>methods.
      seq (invoke env (Call buildTypes Undefined [methods, Null, service, Bool True])) (\<lambda>_.
      seq (alloc [(''type'', type), (''service'', service)]) (\<lambda>imported.
      (\<lambda>st. (Inr Undefined, st\<lparr>facade := (facade st)\<lparr>schema := imported\<rparr>\<rparr>)))))))))))))"

text \<open>What \<open>createClient\<close> returns: a client, with the three references it holds.\<close>

record client =
  client_schema :: jsval
  client_MTProto :: jsval
  client_TL :: jsval

text \<open>Modelled from the spec: the class \<open>TelegramClient\<close> is used by \<open>createClient\<close>
  and defined in no file under \<open>src/\<close>. The spec's data model says of a ClientInstance
  that it "holds references to (ImportedSchema, transport layer, schema layer)", the
  three arguments of its constructor, and names no failure of the constructor.\<close>

definition TelegramClient :: "jsval \<Rightarrow> jsval \<Rightarrow> jsval \<Rightarrow> client" where
  "TelegramClient s mtproto tlang =
     \<lparr>client_schema = s, client_MTProto = mtproto, client_TL = tlang\<rparr>"

text \<open>\<open>createClient()\<close>\<close>

definition createClient :: "client action" where
  "createClient = (\<lambda>st.
     (Inr (TelegramClient (schema (facade st)) (MTProto (facade st)) (TL (facade st))), st))"

text \<open>\<open>addPublicKey(key)\<close>: the pattern \<open>{fingerprint, modulus, exponent} = key\<close> reads
  the three properties in this order and is a \<open>TypeError\<close> on \<open>undefined\<close> and \<open>null\<close>.\<close>

definition addPublicKey :: "extern \<Rightarrow> jsval \<Rightarrow> jsval action" where
  "addPublicKey env key =
     seq (getp key ''fingerprint'') (\<lambda>fingerprint.
     seq (getp key ''modulus'') (\<lambda>modulus.
     seq (getp key ''exponent'') (\<lambda>exponent.
     seq (this_field MTProto) (\<lambda>mtproto.
     seq (getp mtproto ''security'') (\<lambda>security.
     seq (getp security ''PublicKey'') (\<lambda>publicKey.
     seq (getp publicKey ''addKey'') (\<lambda>addKey.
     seq (alloc [(''fingerprint'', fingerprint), (''modulus'', modulus),
                 (''exponent'', exponent)]) (\<lambda>arg.
     seq (invoke env (Call addKey publicKey [arg])) (\<lambda>_.
     ret Undefined)))))))))"

text \<open>\<open>createAuthKey(authKeyId, authKeyBody)\<close>\<close>

definition createAuthKey :: "extern \<Rightarrow> jsval \<Rightarrow> jsval \<Rightarrow> jsval action" where
  "createAuthKey env authKeyId authKeyBody =
     seq (this_field MTProto) (\<lambda>mtproto.
     seq (getp mtproto ''auth'') (\<lambda>auth.
     seq (getp auth ''AuthKey'') (\<lambda>authKey.
     invoke env (New authKey [authKeyId, authKeyBody]))))"

text \<open>\<open>decryptKey(keyBuffer, keyPassword)\<close>\<close>

definition decryptKey :: "extern \<Rightarrow> jsval \<Rightarrow> jsval \<Rightarrow> jsval action" where
  "decryptKey env keyBuffer keyPassword =
     seq (this_field MTProto) (\<lambda>mtproto.
     seq (getp mtproto ''auth'') (\<lambda>auth.
     seq (getp auth ''AuthKey'') (\<lambda>authKey.
     seq (getp authKey ''decryptAuthKey'') (\<lambda>decryptAuthKey.
     invoke env (Call decryptAuthKey authKey [keyBuffer, keyPassword])))))"

text \<open>\<open>string2Buffer(string, length)\<close> and \<open>buffer2String(buffer, length)\<close>\<close>

definition string2Buffer :: "extern \<Rightarrow> jsval \<Rightarrow> jsval \<Rightarrow> jsval action" where
  "string2Buffer env string len =
     seq (this_field MTProto) (\<lambda>mtproto.
     seq (getp mtproto ''utility'') (\<lambda>utility.
     seq (getp utility ''string2Buffer'') (\<lambda>f.
     invoke env (Call f utility [string, len]))))"

definition buffer2String :: "extern \<Rightarrow> jsval \<Rightarrow> jsval \<Rightarrow> jsval action" where
  "buffer2String env buffer len =
     seq (this_field MTProto) (\<lambda>mtproto.
     seq (getp mtproto ''utility'') (\<lambda>utility.
     seq (getp utility ''buffer2String'') (\<lambda>f.
     invoke env (Call f utility [buffer, len]))))"

text \<open>\<open>createRandomPassword(size = 128)\<close>: \<open>buffer2String\<close> is called with the buffer
  alone.\<close>

definition createRandomPassword :: "extern \<Rightarrow> jsval \<Rightarrow> jsval action" where
  "createRandomPassword env size0 =
     (let size = dflt size0 (Num 128) in
      seq (this_field MTProto) (\<lambda>mtproto.
      seq (getp mtproto ''utility'') (\<lambda>util.
      seq (getp util ''createRandomBuffer'') (\<lambda>createRandomBuffer.
      seq (invoke env (Call createRandomBuffer util [size])) (\<lambda>buffer.
      seq (getp util ''buffer2String'') (\<lambda>buffer2String.
      invoke env (Call buffer2String util [buffer])))))))"

section \<open>Classes of inputs\<close>

text \<open>A layer reference is absent when the argument is \<open>undefined\<close> (not passed) or
  \<open>null\<close>; it is present when it is an object, which is what the documented
  parameter types \<open>{MTProto}\<close> and \<open>{TL}\<close> admit.\<close>

definition absent :: "jsval \<Rightarrow> bool" where
  "absent v = (v = Undefined \<or> v = Null)"

fun is_object :: "jsval \<Rightarrow> bool" where
  "is_object (Ref a) = True"
| "is_object v = False"

section \<open>What the theorems ask of the functions of the layers\<close>



section \<open>A sample pair of layers\<close>

text \<open>
  Concrete layers on which the methods can be run. The sample \<open>buildTypes\<close> (code 0)
  throws on a missing declaration list, as a loop over \<open>schemas.length\<close> does, and
  otherwise records the list it was given under \<open>built\<close> in the target module.
  \<open>addKey\<close> (code 1) stores nothing, \<open>AuthKey\<close> (code 2) creates an object,
  \<open>createRandomBuffer\<close> (code 4) creates a buffer object that remembers the size it
  was asked for, \<open>buffer2String\<close> (code 5) returns a fixed string, and every other
  code (\<open>decryptAuthKey\<close> 3, \<open>string2Buffer\<close> 6, and 7, a second \<open>buildTypes\<close>
  that accepts anything) returns \<open>undefined\<close> without touching the store.
\<close>

fun add_prop :: "string \<Rightarrow> jsval \<Rightarrow> obj \<Rightarrow> obj" where
  "add_prop k v (Obj ps) = Obj (ps @ [(k, v)])"
| "add_prop k v (Function c ps) = Function c (ps @ [(k, v)])"

definition sample_buildTypes :: "event \<Rightarrow> obj list \<Rightarrow> (exn + jsval) \<times> obj list" where
  "sample_buildTypes ev h =
     (case ev of
        Call f r [decls, types, Ref t, flag] \<Rightarrow>
          (if decls = Undefined \<or> decls = Null then (Inl TypeError, h)
           else if t < length h then (Inr Undefined, h[t := add_prop ''built'' decls (h ! t)])
           else (Inr Undefined, h))
      | _ \<Rightarrow> (Inr Undefined, h))"

definition sample_env :: extern where
  "sample_env c ev h =
     (if c = 0 then sample_buildTypes ev h
      else if c = 1 then (Inr Undefined, h)
      else if c = 2 then (Inr (Ref (length h)), h @ [Obj [(''made_by'', Str ''AuthKey'')]])
      else if c = 4 then (Inr (Ref (length h)), h @ [Obj [(''length'', hd (args_of ev @ [Undefined]))]])
      else if c = 5 then (Inr (Str ''c0ffee''), h)
      else (Inr Undefined, h))"

text \<open>The store: \<open>MTProto\<close> at 0, \<open>TL\<close> at 6, a schema description at 14, a key
  descriptor at 17, a schema description without \<open>methods\<close> at 18, and at 19 a
  second schema layer, with the \<open>buildTypes\<close> of code 7.\<close>

definition sample_heap :: "obj list" where
  "sample_heap =
    [Obj [(''security'', Ref 1), (''auth'', Ref 3), (''utility'', Ref 5)],
     Obj [(''PublicKey'', Ref 2)],
     Obj [(''addKey'', Ref 8)],
     Obj [(''AuthKey'', Ref 4)],
     Function 2 [(''decryptAuthKey'', Ref 9)],
     Obj [(''createRandomBuffer'', Ref 10), (''buffer2String'', Ref 11),
          (''string2Buffer'', Ref 12)],
     Obj [(''TypeBuilder'', Ref 7)],
     Obj [(''buildTypes'', Ref 13)],
     Function 1 [],
     Function 3 [],
     Function 4 [],
     Function 5 [],
     Function 6 [],
     Function 0 [],
     Obj [(''constructors'', Ref 15), (''methods'', Ref 16)],
     Obj [],
     Obj [],
     Obj [(''fingerprint'', Str ''0xAB''), (''modulus'', Str ''m''),
          (''exponent'', Str ''010001'')],
     Obj [(''constructors'', Ref 15)],
     Obj [(''TypeBuilder'', Ref 20)],
     Obj [(''buildTypes'', Ref 21)],
     Function 7 []]"

definition sample_state :: state where
  "sample_state = \<lparr>facade = \<lparr>MTProto = Ref 0, TL = Ref 6, schema = Undefined\<rparr>,
                    heap = sample_heap, trace = []\<rparr>"



section \<open>Properties of actions, for the proofs\<close>

text \<open>
  Each method is a sequence of steps, and the properties below pass from the steps to the
  sequence: a function of the facade's fields that no step changes; a failure that
  leaves the fields as they were; the first \<open>n\<close> objects of the store left as they
  were; and a run that does not depend on the schema stored before it.
\<close>

definition keeps :: "(telegram \<Rightarrow> 'b) \<Rightarrow> 'a action \<Rightarrow> bool" where
  "keeps g m \<longleftrightarrow> (\<forall>st. g (facade (snd (m st))) = g (facade st))"






section \<open>The constructor\<close>

text \<open>
  Claim C7. Constructing the facade fails if and only if the transport-layer reference
  or the schema-layer reference is absent; when both are present (objects), it succeeds
  and the new instance holds exactly these two references, with no schema yet. (The
  test in the source is on the truth value, so a primitive that reads as false, which
  the parameter types exclude, is rejected like an absent reference.)
\<close>

theorem constructor_fails_iff_absent:
  assumes "absent m \<or> is_object m" and "absent t \<or> is_object t"
  shows "((\<exists>e. Telegram_constructor m t = Inl e) \<longleftrightarrow> absent m \<or> absent t) \<and>
         (\<not> absent m \<and> \<not> absent t \<longrightarrow>
            Telegram_constructor m t = Inr \<lparr>MTProto = m, TL = t, schema = Undefined\<rparr>)"
  using assms by (cases m; cases t) (auto simp: Telegram_constructor_def absent_def)

theorem constructor_fails_iff_absent_witness:
  "Telegram_constructor (Ref 0) (Ref 6) = Inr \<lparr>MTProto = Ref 0, TL = Ref 6, schema = Undefined\<rparr> \<and>
   (\<exists>e. Telegram_constructor (Ref 0) Undefined = Inl e) \<and>
   (\<exists>e. Telegram_constructor Null (Ref 6) = Inl e)"
  using constructor_fails_iff_absent [of "Ref 0" "Ref 6"]
    constructor_fails_iff_absent [of "Ref 0" Undefined]
    constructor_fails_iff_absent [of Null "Ref 6"]
  by (simp add: absent_def)

section \<open>Facts about the sample layers and about runs of useSchema\<close>







section \<open>Steps and sequences\<close>

lemma keeps_seq: "keeps g m \<Longrightarrow> (\<And>x. keeps g (f x)) \<Longrightarrow> keeps g (seq m f)"
  unfolding keeps_def seq_def by (auto split: prod.splits sum.splits) (metis snd_conv)+

lemma keeps_prims:
  "keeps g (this_field fld)" "keeps g (getp v k)" "keeps g (alloc ps)" "keeps g (invoke env ev)"
  "keeps g (ret x)"
  by (simp_all add: keeps_def this_field_def getp_def alloc_def invoke_def ret_def
      split: option.splits prod.splits)

lemma keeps_assign:
  "keeps MTProto (\<lambda>st. (Inr Undefined, st\<lparr>facade := (facade st)\<lparr>schema := v\<rparr>\<rparr>))"
  "keeps TL (\<lambda>st. (Inr Undefined, st\<lparr>facade := (facade st)\<lparr>schema := v\<rparr>\<rparr>))"
  by (simp_all add: keeps_def)



lemma useSchema_keeps_layers:
  "keeps MTProto (useSchema env d tp sp)" "keeps TL (useSchema env d tp sp)"
  unfolding useSchema_def Let_def
  by (intro keeps_seq keeps_prims keeps_assign)+














section \<open>useSchema: the schema is assigned last\<close>






section \<open>A client keeps the schema it was created with\<close>



section \<open>useSchema does not validate the description\<close>


lemma callee_code_append: "callee_code h f = Some c \<Longrightarrow> callee_code (h @ xs) f = Some c"
  by (cases f) (auto simp: nth_append split: if_splits)



section \<open>createClient before any import\<close>

text \<open>
  Claim C3, amended. \<open>createClient\<close> has no check that a schema was imported. On a
  facade as the constructor leaves it, it returns a client, built from
  \<open>this.schema\<close>, which is \<open>undefined\<close>, and from the two layer references; the
  state is unchanged.
\<close>

theorem createClient_on_fresh_facade:
  assumes "Telegram_constructor m t = Inr fc"
  shows "createClient \<lparr>facade = fc, heap = h, trace = tr\<rparr> =
           (Inr \<lparr>client_schema = Undefined, client_MTProto = m, client_TL = t\<rparr>,
            \<lparr>facade = fc, heap = h, trace = tr\<rparr>)"
  using assms
  by (auto simp: Telegram_constructor_def createClient_def TelegramClient_def split: if_splits)

theorem createClient_on_fresh_facade_witness:
  "Telegram_constructor (Ref 0) (Ref 6) = Inr \<lparr>MTProto = Ref 0, TL = Ref 6, schema = Undefined\<rparr> \<and>
   createClient \<lparr>facade = \<lparr>MTProto = Ref 0, TL = Ref 6, schema = Undefined\<rparr>,
                  heap = sample_heap, trace = []\<rparr> =
     (Inr \<lparr>client_schema = Undefined, client_MTProto = Ref 0, client_TL = Ref 6\<rparr>,
      \<lparr>facade = \<lparr>MTProto = Ref 0, TL = Ref 6, schema = Undefined\<rparr>,
       heap = sample_heap, trace = []\<rparr>)"
proof -
  have c: "Telegram_constructor (Ref 0) (Ref 6) = Inr \<lparr>MTProto = Ref 0, TL = Ref 6, schema = Undefined\<rparr>"
    by (simp add: Telegram_constructor_def)
  from createClient_on_fresh_facade [OF c, of sample_heap "[]"] c show ?thesis by simp
qed

text \<open>
  Claim C3 as stated fails: on the sample facade, fresh from the constructor, the call
  returns a client with an undefined schema and raises nothing.
\<close>

theorem createClient_before_import_counterexample:
  "Telegram_constructor (Ref 0) (Ref 6) = Inr (facade sample_state) \<and>
   createClient sample_state =
     (Inr \<lparr>client_schema = Undefined, client_MTProto = Ref 0, client_TL = Ref 6\<rparr>, sample_state) \<and>
   \<not> (\<exists>e st'. createClient sample_state = (Inl e, st'))"
  by (simp add: Telegram_constructor_def createClient_def TelegramClient_def sample_state_def)

section \<open>addPublicKey\<close>

text \<open>
  Claim C8. For a key descriptor (any value but \<open>undefined\<close> and \<open>null\<close>, so that its
  three properties can be read) and a transport layer in which
  \<open>security.PublicKey.addKey\<close> is a function, \<open>addPublicKey\<close> makes exactly one
  call: \<open>addKey\<close>, on the receiver \<open>PublicKey\<close>, with one new object holding the
  descriptor's \<open>fingerprint\<close>, \<open>modulus\<close> and \<open>exponent\<close> as they were read.
  Nothing is checked or changed on the way: the call fails exactly when \<open>addKey\<close>
  throws, with that error, and returns \<open>undefined\<close> otherwise.
\<close>

theorem addPublicKey_one_call:
  assumes "get (heap st) key ''fingerprint'' = Inr fingerprint"
    and "get (heap st) key ''modulus'' = Inr modulus"
    and "get (heap st) key ''exponent'' = Inr exponent"
    and "get (heap st) (MTProto (facade st)) ''security'' = Inr security"
    and "get (heap st) security ''PublicKey'' = Inr publicKey"
    and "get (heap st) publicKey ''addKey'' = Inr addKey"
    and "callee_code (heap st) addKey = Some c"
  shows "addPublicKey env key st =
     (let arg = Ref (length (heap st));
          ev = Call addKey publicKey [arg]
      in case env c ev (heap st @ [Obj [(''fingerprint'', fingerprint), (''modulus'', modulus),
                                        (''exponent'', exponent)]]) of
           (Inl e, h') \<Rightarrow> (Inl e, st\<lparr>heap := h', trace := trace st @ [ev]\<rparr>)
         | (Inr v, h') \<Rightarrow> (Inr Undefined, st\<lparr>heap := h', trace := trace st @ [ev]\<rparr>))"
  using assms(1-6) callee_code_append [OF assms(7)]
  by (simp add: addPublicKey_def seq_def this_field_def getp_def alloc_def invoke_def ret_def Let_def
      del: get.simps callee_code.simps split: prod.splits sum.splits)

theorem addPublicKey_one_call_witness:
  "get (heap sample_state) (Ref 17) ''fingerprint'' = Inr (Str ''0xAB'') \<and>
   get (heap sample_state) (Ref 17) ''modulus'' = Inr (Str ''m'') \<and>
   get (heap sample_state) (Ref 17) ''exponent'' = Inr (Str ''010001'') \<and>
   get (heap sample_state) (MTProto (facade sample_state)) ''security'' = Inr (Ref 1) \<and>
   get (heap sample_state) (Ref 1) ''PublicKey'' = Inr (Ref 2) \<and>
   get (heap sample_state) (Ref 2) ''addKey'' = Inr (Ref 8) \<and>
   callee_code (heap sample_state) (Ref 8) = Some 1 \<and>
   addPublicKey sample_env (Ref 17) sample_state =
     (Inr Undefined,
      sample_state\<lparr>heap := sample_heap @
          [Obj [(''fingerprint'', Str ''0xAB''), (''modulus'', Str ''m''),
                (''exponent'', Str ''010001'')]],
        trace := [Call (Ref 8) (Ref 2) [Ref 22]]\<rparr>)"
proof -
  have 1: "get (heap sample_state) (Ref 17) ''fingerprint'' = Inr (Str ''0xAB'')"
    and 2: "get (heap sample_state) (Ref 17) ''modulus'' = Inr (Str ''m'')"
    and 3: "get (heap sample_state) (Ref 17) ''exponent'' = Inr (Str ''010001'')"
    and 4: "get (heap sample_state) (MTProto (facade sample_state)) ''security'' = Inr (Ref 1)"
    and 5: "get (heap sample_state) (Ref 1) ''PublicKey'' = Inr (Ref 2)"
    and 6: "get (heap sample_state) (Ref 2) ''addKey'' = Inr (Ref 8)"
    and 7: "callee_code (heap sample_state) (Ref 8) = Some 1"
    by (simp_all add: sample_state_def sample_heap_def)
  have "addPublicKey sample_env (Ref 17) sample_state =
     (Inr Undefined,
      sample_state\<lparr>heap := sample_heap @
          [Obj [(''fingerprint'', Str ''0xAB''), (''modulus'', Str ''m''),
                (''exponent'', Str ''010001'')]],
        trace := [Call (Ref 8) (Ref 2) [Ref 22]]\<rparr>)"
    unfolding addPublicKey_one_call [OF 1 2 3 4 5 6 7]
    by (simp add: sample_state_def sample_heap_def sample_env_def Let_def)
  with 1 2 3 4 5 6 7 show ?thesis by blast
qed

section \<open>createRandomPassword\<close>



section \<open>The fields of the facade\<close>

lemma methods_keep_facade:
  "keeps (\<lambda>t. t) createClient"
  "keeps (\<lambda>t. t) (addPublicKey env key)"
  "keeps (\<lambda>t. t) (createAuthKey env authKeyId authKeyBody)"
  "keeps (\<lambda>t. t) (decryptKey env keyBuffer keyPassword)"
  "keeps (\<lambda>t. t) (string2Buffer env string len)"
  "keeps (\<lambda>t. t) (buffer2String env buffer len)"
  "keeps (\<lambda>t. t) (createRandomPassword env size0)"
  unfolding addPublicKey_def createAuthKey_def decryptKey_def string2Buffer_def buffer2String_def
    createRandomPassword_def Let_def
  by (simp add: keeps_def createClient_def, (intro keeps_seq keeps_prims)+)

text \<open>
  Claim C10. No method reassigns \<open>this.MTProto\<close> or \<open>this.TL\<close>: after any run of
  \<open>useSchema\<close>, returning or not, both are what they were. The other methods,
  \<open>createClient\<close>, \<open>addPublicKey\<close>, \<open>createAuthKey\<close>, \<open>decryptKey\<close>,
  \<open>string2Buffer\<close>, \<open>buffer2String\<close> and \<open>createRandomPassword\<close>, leave all three
  fields as they were, so \<open>this.schema\<close> is written by \<open>useSchema\<close> alone.
\<close>

theorem facade_fields_written_by_useSchema_only:
  "MTProto (facade (snd (useSchema env description typePrefix servicePrefix st))) = MTProto (facade st) \<and>
   TL (facade (snd (useSchema env description typePrefix servicePrefix st))) = TL (facade st) \<and>
   facade (snd (createClient st)) = facade st \<and>
   facade (snd (addPublicKey env key st)) = facade st \<and>
   facade (snd (createAuthKey env authKeyId authKeyBody st)) = facade st \<and>
   facade (snd (decryptKey env keyBuffer keyPassword st)) = facade st \<and>
   facade (snd (string2Buffer env string len st)) = facade st \<and>
   facade (snd (buffer2String env buffer len st)) = facade st \<and>
   facade (snd (createRandomPassword env size0 st)) = facade st"
  by (simp add: useSchema_keeps_layers [unfolded keeps_def] methods_keep_facade [unfolded keeps_def])

section \<open>useSchema on a description object, when the builder returns\<close>




section \<open>useSchema: the roots and their prefixes\<close>


section \<open>useSchema: two calls of the builder, then the assignment\<close>




end
